theory Spec2Isabelle
  imports Complex_Main
begin

section \<open>Python values\<close>

text \<open>
  The module \<^verbatim>\<open>ocpp/messages.py\<close> handles whatever \<^verbatim>\<open>json.loads\<close> produces
  (\<^verbatim>\<open>None\<close>, \<^verbatim>\<open>bool\<close>, \<^verbatim>\<open>int\<close>, \<^verbatim>\<open>float\<close>, \<^verbatim>\<open>str\<close>, \<^verbatim>\<open>list\<close>, \<^verbatim>\<open>dict\<close>) and, in
  \<^verbatim>\<open>Call.__init__\<close>, dataclass instances. A float is a rational (every finite double is
  one) or one of the three special values that \<^verbatim>\<open>json.loads\<close> accepts. A dict is an
  association list with string keys, in insertion order; a dataclass instance is its class
  name with its fields in declaration order.
\<close>

datatype pyfloat = Finite rat | PosInf | NegInf | NaN

datatype pyval =
    PNone
  | PBool bool
  | PInt int
  | PFloat pyfloat
  | PStr string
  | PList "pyval list"
  | PDict "(string \<times> pyval) list"
  | PDataclass string "(string \<times> pyval) list"

text \<open>
  \<^verbatim>\<open>x == n\<close> for an \<^verbatim>\<open>int\<close> constant \<^verbatim>\<open>n\<close>, as Python evaluates it: numbers compare by
  value across \<^verbatim>\<open>int\<close>, \<^verbatim>\<open>float\<close> and \<^verbatim>\<open>bool\<close> (\<^verbatim>\<open>True == 1\<close>, \<^verbatim>\<open>2.0 == 2\<close>); every
  other value is unequal to an \<^verbatim>\<open>int\<close>.
\<close>

fun eq_int :: "pyval \<Rightarrow> int \<Rightarrow> bool" where
  "eq_int (PInt i) n = (i = n)"
| "eq_int (PBool b) n = ((if b then 1 else 0) = n)"
| "eq_int (PFloat f) n = (f = Finite (of_int n))"
| "eq_int _ n = False"

text \<open>\<^verbatim>\<open>dataclasses.is_dataclass\<close> and \<^verbatim>\<open>dataclasses.asdict\<close>: the latter turns a
  dataclass instance into the dict of its fields and recurses into fields, lists and
  dicts.\<close>

fun is_dataclass :: "pyval \<Rightarrow> bool" where
  "is_dataclass (PDataclass n fields) = True"
| "is_dataclass _ = False"

fun asdict :: "pyval \<Rightarrow> pyval" where
  "asdict (PDataclass n fields) = PDict (map (\<lambda>(k, v). (k, asdict v)) fields)"
| "asdict (PList xs) = PList (map asdict xs)"
| "asdict (PDict kvs) = PDict (map (\<lambda>(k, v). (k, asdict v)) kvs)"
| "asdict v = v"

text \<open>\<^verbatim>\<open>str(type(x))\<close>, which the f-string \<^verbatim>\<open>{type(msg)}\<close> prints.\<close>

fun type_repr :: "pyval \<Rightarrow> string" where
  "type_repr PNone = ''<class 'NoneType'>''"
| "type_repr (PBool b) = ''<class 'bool'>''"
| "type_repr (PInt i) = ''<class 'int'>''"
| "type_repr (PFloat f) = ''<class 'float'>''"
| "type_repr (PStr s) = ''<class 'str'>''"
| "type_repr (PList xs) = ''<class 'list'>''"
| "type_repr (PDict kvs) = ''<class 'dict'>''"
| "type_repr (PDataclass n fields) = ''<class '' @ [CHR 0x27] @ n @ [CHR 0x27] @ ''>''"

section \<open>Exceptions\<close>

text \<open>
  The exceptions that leave the functions of the module. The first five are classes of
  \<^verbatim>\<open>ocpp.exceptions\<close>, raised here with the arguments shown in the source; the others are
  Python's own (\<^verbatim>\<open>TypeError\<close> from a call with the wrong number of arguments or from
  \<^verbatim>\<open>+=\<close> on unsuitable operands, \<^verbatim>\<open>ValueError\<close> from \<^verbatim>\<open>raise ValueError\<close>, \<^verbatim>\<open>OSError\<close>
  from \<^verbatim>\<open>open\<close>, \<^verbatim>\<open>json.JSONDecodeError\<close> from \<^verbatim>\<open>json.loads\<close>, and the \<^verbatim>\<open>RecursionError\<close>
  the interpreter raises inside \<^verbatim>\<open>json.loads\<close> on a text nested too deeply) and
  \<^verbatim>\<open>SchemaError\<close> of \<^verbatim>\<open>jsonschema\<close>. A string argument is the exception's text.
\<close>

datatype exn =
    FormatViolationError string
  | ProtocolError string
  | PropertyConstraintViolationError string
  | ValidationError string
  | UnknownCallErrorCodeError string pyval
  | TypeError
  | ValueError
  | IndexError
  | OSError string
  | JSONDecodeError string
  | RecursionError
  | SchemaError string

section \<open>The libraries the module calls\<close>

text \<open>
  The module calls \<^verbatim>\<open>json.loads\<close>, \<^verbatim>\<open>json.dumps\<close>, \<^verbatim>\<open>str\<close> (through f-strings),
  \<^verbatim>\<open>jsonschema.validate\<close> and reads the directory of its own file. They are parameters
  of the model:
  \<^item> \<open>json_loads\<close>: \<open>Inr v\<close> is the parsed value, \<open>Inl e\<close> the exception \<^verbatim>\<open>json.loads\<close>
    raises: \<open>JSONDecodeError s\<close> with text \<open>s\<close> on a text that is not JSON, or another one
    (\<^verbatim>\<open>RecursionError\<close> on a text nested too deeply, \<^verbatim>\<open>ValueError\<close> on an integer literal
    longer than the interpreter converts);
  \<^item> \<open>json_dumps\<close>: \<open>Inl\<close> is the exception \<^verbatim>\<open>json.dumps\<close> raises on a value it cannot
    serialise;
  \<^item> \<open>py_str\<close>: \<^verbatim>\<open>str(x)\<close> for a value that is not a \<^verbatim>\<open>str\<close>;
  \<^item> \<open>jsonschema_validate instance schema\<close>: the outcome of \<^verbatim>\<open>validate(instance, schema)\<close>;
  \<^item> \<open>module_dir\<close>: \<^verbatim>\<open>os.path.split(os.path.realpath(__file__))[0]\<close>.
\<close>

datatype validation = Valid | SchemaValidationError string | InvalidSchema string

record pylib =
  json_loads :: "string \<Rightarrow> exn + pyval"
  json_dumps :: "pyval \<Rightarrow> exn + string"
  py_str :: "pyval \<Rightarrow> string"
  jsonschema_validate :: "pyval \<Rightarrow> pyval \<Rightarrow> validation"
  module_dir :: string

text \<open>A replacement field \<^verbatim>\<open>{x}\<close> of an f-string: a \<^verbatim>\<open>str\<close> is inserted as it is.\<close>

fun format_value :: "pylib \<Rightarrow> pyval \<Rightarrow> string" where
  "format_value lib (PStr s) = s"
| "format_value lib v = py_str lib v"

section \<open>The three messages\<close>

record call =
  unique_id :: pyval
  action :: pyval
  payload :: pyval

record call_result =
  result_unique_id :: pyval
  result_payload :: pyval
  result_action :: pyval

record call_error =
  error_unique_id :: pyval
  error_code :: pyval
  error_description :: pyval
  error_details :: pyval

datatype message = MCall call | MCallResult call_result | MCallError call_error

datatype message_class = Call | CallResult | CallError

text \<open>The class attribute \<^verbatim>\<open>message_type_id\<close> (lines 146, 219, 256).\<close>

fun message_type_id :: "message_class \<Rightarrow> int" where
  "message_type_id Call = 2"
| "message_type_id CallResult = 3"
| "message_type_id CallError = 4"

text \<open>\<^verbatim>\<open>Call.__init__\<close> (lines 148-154).\<close>

definition Call_init :: "pyval \<Rightarrow> pyval \<Rightarrow> pyval \<Rightarrow> call" where
  "Call_init u a p =
     \<lparr>unique_id = u, action = a, payload = (if is_dataclass p then asdict p else p)\<rparr>"

text \<open>\<^verbatim>\<open>CallResult.__init__(self, unique_id, payload, action=None)\<close> (lines 221-227).\<close>

definition CallResult_init :: "pyval \<Rightarrow> pyval \<Rightarrow> pyval \<Rightarrow> call_result" where
  "CallResult_init u p a = \<lparr>result_unique_id = u, result_payload = p, result_action = a\<rparr>"

text \<open>\<^verbatim>\<open>CallError.__init__(self, unique_id, error_code, error_description,
  error_details=None)\<close> (lines 258-263).\<close>

definition CallError_init :: "pyval \<Rightarrow> pyval \<Rightarrow> pyval \<Rightarrow> pyval \<Rightarrow> call_error" where
  "CallError_init u c d t =
     \<lparr>error_unique_id = u, error_code = c, error_description = d, error_details = t\<rparr>"

text \<open>
  The call \<^verbatim>\<open>cls(*args)\<close> of line 35: Python binds the positional arguments to the
  parameters of \<^verbatim>\<open>__init__\<close>, fills in the defaults, and raises \<^verbatim>\<open>TypeError\<close> when there are
  too few or too many.
\<close>

fun construct :: "message_class \<Rightarrow> pyval list \<Rightarrow> exn + message" where
  "construct Call [u, a, p] = Inr (MCall (Call_init u a p))"
| "construct CallResult [u, p] = Inr (MCallResult (CallResult_init u p PNone))"
| "construct CallResult [u, p, a] = Inr (MCallResult (CallResult_init u p a))"
| "construct CallError [u, c, d] = Inr (MCallError (CallError_init u c d PNone))"
| "construct CallError [u, c, d, t] = Inr (MCallError (CallError_init u c d t))"
| "construct cls args = Inl TypeError"

section \<open>unpack and pack\<close>

text \<open>
  The loop of lines 32-37 over the classes still to try. \<^verbatim>\<open>msg[0]\<close> on an empty list
  raises \<^verbatim>\<open>IndexError\<close>, which the \<^verbatim>\<open>except\<close> clause turns into a \<^verbatim>\<open>ProtocolError\<close>; the
  \<^verbatim>\<open>TypeError\<close> of the constructor call is not caught. After the loop, line 39 reads
  \<^verbatim>\<open>msg[0]\<close> again, outside any \<^verbatim>\<open>try\<close>.
\<close>

fun unpack_loop :: "pylib \<Rightarrow> pyval list \<Rightarrow> message_class list \<Rightarrow> exn + message" where
  "unpack_loop lib msg [] =
     (case msg of
        [] \<Rightarrow> Inl IndexError
      | x # args \<Rightarrow> Inl (PropertyConstraintViolationError
          (''MessageTypeId '' @ [CHR 0x27] @ format_value lib x @ [CHR 0x27] @ '' isn't valid'')))"
| "unpack_loop lib msg (cls # rest) =
     (case msg of
        [] \<Rightarrow> Inl (ProtocolError ''Message doesn't contain MessageTypeID'')
      | x # args \<Rightarrow>
          if eq_int x (message_type_id cls) then construct cls args
          else unpack_loop lib msg rest)"

text \<open>\<^verbatim>\<open>unpack\<close> (lines 19-40).\<close>

definition unpack :: "pylib \<Rightarrow> string \<Rightarrow> exn + message" where
  "unpack lib text =
     (case json_loads lib text of
        Inl (JSONDecodeError e) \<Rightarrow>
          Inl (FormatViolationError (''Message is not valid JSON: '' @ e))
      | Inl other \<Rightarrow> Inl other
      | Inr (PList msg) \<Rightarrow> unpack_loop lib msg [Call, CallResult, CallError]
      | Inr v \<Rightarrow> Inl (ProtocolError
          (''OCPP message hasn't the correct format. It should be a list, but got ''
            @ type_repr v @ '' instead'')))"






section \<open>The factories of Call\<close>

text \<open>\<^verbatim>\<open>Call.create_call_result\<close> (lines 165-168).\<close>

definition create_call_result :: "call \<Rightarrow> pyval \<Rightarrow> call_result" where
  "create_call_result self p =
     (let call_result = CallResult_init (unique_id self) p PNone
      in call_result\<lparr>result_action := action self\<rparr>)"

text \<open>
  Modelled from the spec: \<^verbatim>\<open>ocpp.exceptions\<close> is not among the sources. A protocol failure
  kind (a subclass of \<^verbatim>\<open>OCPPError\<close>) is identified by its error code, and a failure of that
  kind carries a description and details (sections 4.1 and 4.5 of the specification).
\<close>

datatype error_class = ErrorClass (code: string)

record ocpp_error =
  kind :: error_class
  description :: pyval
  details :: pyval

text \<open>The argument of \<^verbatim>\<open>create_call_error\<close>: an instance of a subclass of \<^verbatim>\<open>OCPPError\<close>, or
  any other exception.\<close>

datatype exception = OCPPErrorInstance ocpp_error | OtherException

text \<open>\<^verbatim>\<open>Call.create_call_error\<close> (lines 170-185).\<close>

definition create_call_error :: "call \<Rightarrow> exception \<Rightarrow> call_error" where
  "create_call_error self exception =
     (case exception of
        OCPPErrorInstance e \<Rightarrow>
          CallError_init (unique_id self) (PStr (code (kind e))) (description e) (details e)
      | OtherException \<Rightarrow>
          CallError_init (unique_id self) (PStr ''InternalError'')
            (PStr ''An unexpected error occured.'') (PDict []))"

section \<open>CallError.to_exception\<close>

text \<open>
  The loop of lines 276-284 over \<^verbatim>\<open>OCPPError.__subclasses__()\<close>, which is the first
  argument. \<^verbatim>\<open>error.code == self.error_code\<close> compares a \<^verbatim>\<open>str\<close> with the field, which
  off the wire may be any value. \<^verbatim>\<open>UnknownCallErrorCodeError\<close> is raised with two
  arguments, the format string and the code.
\<close>

fun to_exception :: "error_class list \<Rightarrow> call_error \<Rightarrow> exn + ocpp_error" where
  "to_exception [] self =
     Inl (UnknownCallErrorCodeError
            ''Error code '%s' is not defined by the OCPP specification'' (error_code self))"
| "to_exception (error # rest) self =
     (if PStr (code error) = error_code self
      then Inr \<lparr>kind = error, description = error_description self,
                details = error_details self\<rparr>
      else to_exception rest self)"

text \<open>
  Modelled from the spec: the subclasses of \<^verbatim>\<open>OCPPError\<close> are declared in
  \<^verbatim>\<open>ocpp.exceptions\<close>, which is not among the sources. Section 4.5 of the specification
  gives the registered vocabulary of error codes.
\<close>

definition OCPPError_subclasses :: "error_class list" where
  "OCPPError_subclasses =
     map ErrorClass
       [''NotImplemented'', ''NotSupported'', ''InternalError'', ''ProtocolError'',
        ''SecurityError'', ''FormationViolation'', ''PropertyConstraintViolation'',
        ''OccurenceConstraintViolation'', ''TypeConstraintViolation'', ''GenericError'']"

section \<open>The schema store\<close>

text \<open>
  Modelled from the spec: \<^verbatim>\<open>MessageType\<close> of \<^verbatim>\<open>ocpp.v16.enums\<close> is not among the sources.
  Section 3 of the specification gives the wire type ids 2, 3 and 4.
\<close>

definition MessageType_Call :: int where
  "MessageType_Call = 2"

definition MessageType_CallResult :: int where
  "MessageType_CallResult = 3"

definition MessageType_CallError :: int where
  "MessageType_CallError = 4"

text \<open>
  The module-level dict \<^verbatim>\<open>_schemas\<close> holds references to the objects \<^verbatim>\<open>json.loads\<close>
  returned. An object is its identity and its value; \<open>next_id\<close> is the identity the next
  new object gets. \<open>opened\<close> lists the paths given to \<^verbatim>\<open>open\<close> so far, oldest first: it
  records the reads of the backing storage.
\<close>

record pyobject =
  oid :: nat
  val :: pyval

record world =
  schemas :: "string \<rightharpoonup> pyobject"
  next_id :: nat
  opened :: "string list"

definition initial_world :: world where
  "initial_world = \<lparr>schemas = Map.empty, next_id = 0, opened = []\<rparr>"

text \<open>The files: \<open>Inl e\<close> when \<^verbatim>\<open>open\<close> raises \<^verbatim>\<open>OSError\<close> with text \<open>e\<close>, \<open>Inr data\<close> with the
  text of the file decoded as \<^verbatim>\<open>utf-8-sig\<close> (a leading byte order mark removed).\<close>

type_synonym files = "string \<Rightarrow> string + string"

text \<open>Lines 59-64.\<close>

definition schemas_dir :: "string \<Rightarrow> string option" where
  "schemas_dir ocpp_version =
     (if ocpp_version = ''1.6'' then Some ''v16''
      else if ocpp_version = ''2.0'' then Some ''v20''
      else None)"

text \<open>
  \<^verbatim>\<open>x += s\<close> for a \<^verbatim>\<open>str\<close> \<open>s\<close>: concatenation when \<open>x\<close> is a \<^verbatim>\<open>str\<close>; a list is extended
  by the characters of \<open>s\<close>; every other value of the model, \<^verbatim>\<open>None\<close> among them, has no
  addition with a \<^verbatim>\<open>str\<close> and the statement raises \<^verbatim>\<open>TypeError\<close>.
\<close>

fun iadd_str :: "pyval \<Rightarrow> string \<Rightarrow> exn + pyval" where
  "iadd_str (PStr a) s = Inr (PStr (a @ s))"
| "iadd_str (PList xs) s = Inr (PList (xs @ map (\<lambda>c. PStr [c]) s))"
| "iadd_str _ s = Inl TypeError"

text \<open>Lines 66-74: the value of \<^verbatim>\<open>schema_name\<close> after the suffixes.\<close>

definition schema_name :: "int \<Rightarrow> pyval \<Rightarrow> string \<Rightarrow> exn + pyval" where
  "schema_name mtid act ocpp_version =
     (case (if mtid = MessageType_CallResult then iadd_str act ''Response''
            else if mtid = MessageType_Call then
              (if ocpp_version = ''2.0'' then iadd_str act ''Request'' else Inr act)
            else Inr act) of
        Inl e \<Rightarrow> Inl e
      | Inr n \<Rightarrow> if ocpp_version = ''2.0'' then iadd_str n ''_v1p0'' else Inr n)"

text \<open>Line 77.\<close>

definition relative_path :: "pylib \<Rightarrow> string \<Rightarrow> pyval \<Rightarrow> string" where
  "relative_path lib dir n = dir @ ''/schemas/'' @ format_value lib n @ ''.json''"

text \<open>\<^verbatim>\<open>os.path.join\<close> of two components, on POSIX.\<close>

definition path_join :: "string \<Rightarrow> string \<Rightarrow> string" where
  "path_join a b =
     (if take 1 b = ''/'' then b
      else if a = [] \<or> last a = CHR ''/'' then a @ b
      else a @ ''/'' @ b)"

text \<open>\<^verbatim>\<open>get_schema\<close> (lines 53-91): the result and the world after the call.\<close>

definition get_schema ::
  "pylib \<Rightarrow> files \<Rightarrow> world \<Rightarrow> int \<Rightarrow> pyval \<Rightarrow> string \<Rightarrow> (exn + pyobject) \<times> world" where
  "get_schema lib fs w mtid act ocpp_version =
     (case schemas_dir ocpp_version of
        None \<Rightarrow> (Inl ValueError, w)
      | Some dir \<Rightarrow>
          (case schema_name mtid act ocpp_version of
             Inl e \<Rightarrow> (Inl e, w)
           | Inr n \<Rightarrow>
               (let rel = relative_path lib dir n;
                    path = path_join (module_dir lib) rel
                in case schemas w rel of
                     Some schema \<Rightarrow> (Inr schema, w)
                   | None \<Rightarrow>
                       (let w1 = w\<lparr>opened := opened w @ [path]\<rparr>
                        in case fs path of
                             Inl e \<Rightarrow> (Inl (OSError e), w1)
                           | Inr data \<Rightarrow>
                               (case json_loads lib data of
                                  Inl e \<Rightarrow> (Inl e, w1)
                                | Inr v \<Rightarrow>
                                    (let schema = \<lparr>oid = next_id w, val = v\<rparr>
                                     in (Inr schema,
                                         w1\<lparr>schemas := (schemas w)(rel \<mapsto> schema),
                                            next_id := Suc (next_id w)\<rparr>)))))))"

section \<open>validate_payload\<close>

text \<open>
  When \<^verbatim>\<open>message.action\<close> is a list, \<^verbatim>\<open>schema_name += ...\<close> in \<^verbatim>\<open>get_schema\<close> extends that
  very list, so the messages of \<^verbatim>\<open>validate_payload\<close> print the extended one. A \<^verbatim>\<open>str\<close> is
  immutable and stays as it was.
\<close>

definition action_after :: "int \<Rightarrow> pyval \<Rightarrow> string \<Rightarrow> pyval" where
  "action_after mtid act ocpp_version =
     (case act of
        PList xs \<Rightarrow> (case schema_name mtid act ocpp_version of Inr n \<Rightarrow> n | Inl e \<Rightarrow> act)
      | _ \<Rightarrow> act)"

text \<open>What lines 101-117 do with a \<^verbatim>\<open>Call\<close> or a \<^verbatim>\<open>CallResult\<close>, given its type id, action
  and payload.\<close>

definition validate_against_schema ::
  "pylib \<Rightarrow> files \<Rightarrow> world \<Rightarrow> int \<Rightarrow> pyval \<Rightarrow> pyval \<Rightarrow> string \<Rightarrow> (exn + unit) \<times> world" where
  "validate_against_schema lib fs w mtid act pl ocpp_version =
     (let shown = [CHR 0x27] @ format_value lib (action_after mtid act ocpp_version) @ [CHR 0x27]
      in case get_schema lib fs w mtid act ocpp_version of
           (Inl (OSError e), w1) \<Rightarrow>
             (Inl (ValidationError
                (''Failed to load validation schema for action '' @ shown @ '': '' @ e)), w1)
         | (Inl (JSONDecodeError e), w1) \<Rightarrow>
             (Inl (ValidationError
                (''Failed to load validation schema for action '' @ shown @ '': '' @ e)), w1)
         | (Inl e, w1) \<Rightarrow> (Inl e, w1)
         | (Inr schema, w1) \<Rightarrow>
             (case jsonschema_validate lib pl (val schema) of
                Valid \<Rightarrow> (Inr (), w1)
              | SchemaValidationError e \<Rightarrow>
                  (Inl (ValidationError
                     (''Payload '' @ [CHR 0x27] @ format_value lib pl @ '' for action '' @ shown
                       @ '' is not valid: '' @ e)), w1)
              | InvalidSchema e \<Rightarrow> (Inl (SchemaError e), w1)))"

text \<open>\<^verbatim>\<open>validate_payload\<close> (lines 94-117).\<close>

fun validate_payload ::
  "pylib \<Rightarrow> files \<Rightarrow> world \<Rightarrow> message \<Rightarrow> string \<Rightarrow> (exn + unit) \<times> world" where
  "validate_payload lib fs w (MCall m) ocpp_version =
     validate_against_schema lib fs w (message_type_id Call) (action m) (payload m) ocpp_version"
| "validate_payload lib fs w (MCallResult m) ocpp_version =
     validate_against_schema lib fs w (message_type_id CallResult) (result_action m)
       (result_payload m) ocpp_version"
| "validate_payload lib fs w (MCallError m) ocpp_version =
     (Inl (ValidationError
        (''Payload can't be validated because message type. It's '' @ [CHR 0x27]
          @ ''<class 'ocpp.messages.CallError'>'' @ [CHR 0x27]
          @ '', but it should be either 'Call'  or 'CallResult'.'')), w)"

section \<open>A run of the schema store\<close>





section \<open>A library and files for the examples\<close>

text \<open>
  The examples below run the module on concrete wire texts and schema files.
  \<open>known_texts\<close> lists the JSON texts they use with the values \<^verbatim>\<open>json.loads\<close> gives them;
  \<open>example_loads\<close> and \<open>example_dumps\<close> are \<^verbatim>\<open>json.loads\<close> and \<^verbatim>\<open>json.dumps\<close> restricted to
  that table, with the \<^verbatim>\<open>RecursionError\<close> of \<^verbatim>\<open>json.loads\<close> on the text of 100000 opening
  brackets, \<open>example_str\<close> is \<^verbatim>\<open>str\<close> on \<^verbatim>\<open>None\<close>, \<^verbatim>\<open>bool\<close> and \<^verbatim>\<open>int\<close>, and
  \<open>example_validate\<close> checks the \<^verbatim>\<open>required\<close> keyword of a schema.
\<close>

definition known_texts :: "(string \<times> pyval) list" where
  \<open>known_texts =
     [(''[2]'', PList [PInt 2]),
      (''{}'', PDict []),
      (''[]'', PList []),
      (''[9, "1"]'', PList [PInt 9, PStr ''1'']),
      (''[2, "", "", {}]'', PList [PInt 2, PStr '''', PStr '''', PDict []]),
      (''[2, "19223201", "BootNotification", {"chargePointVendor": "VendorX", "chargePointModel": "SingleSocketCharger"}]'',
       PList [PInt 2, PStr ''19223201'', PStr ''BootNotification'',
              PDict [(''chargePointVendor'', PStr ''VendorX''),
                     (''chargePointModel'', PStr ''SingleSocketCharger'')]]),
      (''[3, "19223201", {"status": "Accepted"}]'',
       PList [PInt 3, PStr ''19223201'', PDict [(''status'', PStr ''Accepted'')]]),
      (''[3, "1", {"currentTime": "2013-02-01T20:53:32.486Z"}, "Heartbeat"]'',
       PList [PInt 3, PStr ''1'', PDict [(''currentTime'', PStr ''2013-02-01T20:53:32.486Z'')],
              PStr ''Heartbeat'']),
      (''{"type": "object", "required": ["currentTime"]}'',
       PDict [(''type'', PStr ''object''), (''required'', PList [PStr ''currentTime''])]),
      (''{"type": "object", "required": ["chargePointVendor", "chargePointModel"]}'',
       PDict [(''type'', PStr ''object''),
              (''required'', PList [PStr ''chargePointVendor'', PStr ''chargePointModel''])]),
      (''{"type": "object", "required": ["chargingStation", "reason"]}'',
       PDict [(''type'', PStr ''object''),
              (''required'', PList [PStr ''chargingStation'', PStr ''reason''])])]\<close>

definition example_loads :: "string \<Rightarrow> exn + pyval" where
  "example_loads text =
     (if text = replicate 100000 (CHR ''['') then Inl RecursionError
      else case map_of known_texts text of
        Some v \<Rightarrow> Inr v
      | None \<Rightarrow> Inl (JSONDecodeError ''Expecting value: line 1 column 1 (char 0)''))"

definition example_dumps :: "pyval \<Rightarrow> exn + string" where
  "example_dumps v =
     (case find (\<lambda>entry. snd entry = v) known_texts of
        Some entry \<Rightarrow> Inr (fst entry)
      | None \<Rightarrow> Inl TypeError)"

fun digits :: "nat \<Rightarrow> string" where
  "digits n =
     (if n < 10 then [''0123456789'' ! n]
      else digits (n div 10) @ [''0123456789'' ! (n mod 10)])"

declare digits.simps [simp del]

fun example_str :: "pyval \<Rightarrow> string" where
  "example_str PNone = ''None''"
| "example_str (PBool b) = (if b then ''True'' else ''False'')"
| "example_str (PInt i) = (if i < 0 then ''-'' @ digits (nat (- i)) else digits (nat i))"
| "example_str v = ''...''"

fun required_keys :: "pyval \<Rightarrow> string list" where
  "required_keys (PDict kvs) =
     (case map_of kvs ''required'' of
        Some (PList ks) \<Rightarrow> concat (map (\<lambda>k. case k of PStr s \<Rightarrow> [s] | _ \<Rightarrow> []) ks)
      | _ \<Rightarrow> [])"
| "required_keys v = []"

fun example_validate :: "pyval \<Rightarrow> pyval \<Rightarrow> validation" where
  "example_validate (PDict kvs) schema =
     (case filter (\<lambda>k. map_of kvs k = None) (required_keys schema) of
        [] \<Rightarrow> Valid
      | k # ks \<Rightarrow> SchemaValidationError ([CHR 0x27] @ k @ [CHR 0x27] @ '' is a required property''))"
| "example_validate v schema = SchemaValidationError ''the value is not an object''"

definition example_lib :: pylib where
  "example_lib =
     \<lparr>json_loads = example_loads, json_dumps = example_dumps, py_str = example_str,
      jsonschema_validate = example_validate, module_dir = ''/opt/ocpp''\<rparr>"

definition example_files :: files where
  \<open>example_files path =
     (if path = ''/opt/ocpp/v16/schemas/HeartbeatResponse.json''
      then Inr ''{"type": "object", "required": ["currentTime"]}''
      else if path = ''/opt/ocpp/v16/schemas/BootNotification.json''
      then Inr ''{"type": "object", "required": ["chargePointVendor", "chargePointModel"]}''
      else if path = ''/opt/ocpp/v20/schemas/BootNotificationRequest_v1p0.json''
      then Inr ''{"type": "object", "required": ["chargingStation", "reason"]}''
      else Inl (''[Errno 2] No such file or directory: '' @ path))\<close>







section \<open>Notions used in the statements\<close>

text \<open>\<^verbatim>\<open>isinstance(x, list)\<close>.\<close>

fun is_list :: "pyval \<Rightarrow> bool" where
  "is_list (PList xs) = True"
| "is_list _ = False"

text \<open>The exception of lines 283-284 for a given \<^verbatim>\<open>CallError\<close>.\<close>

definition unknown_code :: "call_error \<Rightarrow> exn" where
  "unknown_code self =
     UnknownCallErrorCodeError ''Error code '%s' is not defined by the OCPP specification''
       (error_code self)"

section \<open>The examples' library on the examples' texts\<close>

text \<open>A text whose second character is not an opening bracket is not the deeply nested
  one, and \<open>example_loads\<close> looks it up in the table.\<close>

lemma example_loads_known:
  "text ! Suc 0 \<noteq> CHR ''['' \<Longrightarrow>
   example_loads text =
     (case map_of known_texts text of
        Some v \<Rightarrow> Inr v
      | None \<Rightarrow> Inl (JSONDecodeError ''Expecting value: line 1 column 1 (char 0)''))"
  by (auto simp add: example_loads_def)

lemma example_loads_simps:
  \<open>example_loads ''not json'' = Inl (JSONDecodeError ''Expecting value: line 1 column 1 (char 0)'')\<close>
  \<open>example_loads ''{}'' = Inr (PDict [])\<close>
  \<open>example_loads ''[]'' = Inr (PList [])\<close>
  \<open>example_loads ''[9, "1"]'' = Inr (PList [PInt 9, PStr ''1''])\<close>
  by (simp_all add: example_loads_known known_texts_def)

lemma example_loads_frames:
  \<open>example_loads ''[2, "", "", {}]'' = Inr (PList [PInt 2, PStr '''', PStr '''', PDict []])\<close>
  \<open>example_loads ''[2, "19223201", "BootNotification", {"chargePointVendor": "VendorX", "chargePointModel": "SingleSocketCharger"}]''
     = Inr (PList [PInt 2, PStr ''19223201'', PStr ''BootNotification'',
              PDict [(''chargePointVendor'', PStr ''VendorX''),
                     (''chargePointModel'', PStr ''SingleSocketCharger'')]])\<close>
  by (simp_all add: example_loads_known known_texts_def)

lemma example_loads_results:
  \<open>example_loads ''[3, "19223201", {"status": "Accepted"}]''
     = Inr (PList [PInt 3, PStr ''19223201'', PDict [(''status'', PStr ''Accepted'')]])\<close>
  \<open>example_loads ''[3, "1", {"currentTime": "2013-02-01T20:53:32.486Z"}, "Heartbeat"]''
     = Inr (PList [PInt 3, PStr ''1'', PDict [(''currentTime'', PStr ''2013-02-01T20:53:32.486Z'')],
              PStr ''Heartbeat''])\<close>
  \<open>example_loads ''{"type": "object", "required": ["currentTime"]}''
     = Inr (PDict [(''type'', PStr ''object''), (''required'', PList [PStr ''currentTime''])])\<close>
  by (simp_all add: example_loads_known known_texts_def)


section \<open>The constructors behind unpack\<close>

lemma construct_Call_arity:
  "length args \<noteq> 3 \<Longrightarrow> construct Call args = Inl TypeError"
  by (cases "(Call, args)" rule: construct.cases) auto

lemma construct_CallResult_arity:
  "length args \<noteq> 2 \<Longrightarrow> length args \<noteq> 3 \<Longrightarrow> construct CallResult args = Inl TypeError"
  by (cases "(CallResult, args)" rule: construct.cases) auto

lemma construct_CallError_arity:
  "length args \<noteq> 3 \<Longrightarrow> length args \<noteq> 4 \<Longrightarrow> construct CallError args = Inl TypeError"
  by (cases "(CallError, args)" rule: construct.cases) auto

lemma construct_Call_Inr:
  "construct Call args = Inr m \<Longrightarrow> \<exists>u a p. args = [u, a, p] \<and> m = MCall (Call_init u a p)"
  by (cases "(Call, args)" rule: construct.cases) auto

lemma construct_CallResult_Inr:
  "construct CallResult args = Inr m \<Longrightarrow>
   (\<exists>u p. args = [u, p] \<and> m = MCallResult (CallResult_init u p PNone))
   \<or> (\<exists>u p a. args = [u, p, a] \<and> m = MCallResult (CallResult_init u p a))"
  by (cases "(CallResult, args)" rule: construct.cases) auto

lemma construct_CallError_Inr:
  "construct CallError args = Inr m \<Longrightarrow>
   (\<exists>u c d. args = [u, c, d] \<and> m = MCallError (CallError_init u c d PNone))
   \<or> (\<exists>u c d t. args = [u, c, d, t] \<and> m = MCallError (CallError_init u c d t))"
  by (cases "(CallError, args)" rule: construct.cases) auto

text \<open>A frame whose type id is that of \<^verbatim>\<open>Call\<close> and whose field count is not three leaves
  \<^verbatim>\<open>unpack\<close> as the \<^verbatim>\<open>TypeError\<close> of the constructor call, whatever the library.\<close>

lemma unpack_wrong_field_count:
  "json_loads lib text = Inr (PList (x # args)) \<Longrightarrow> eq_int x (message_type_id Call) \<Longrightarrow>
   length args \<noteq> 3 \<Longrightarrow> unpack lib text = Inl TypeError"
  by (simp add: unpack_def construct_Call_arity)

text \<open>A message comes out of \<^verbatim>\<open>unpack\<close> only through one of the three constructors, chosen
  by the first element of the parsed list.\<close>

lemma unpack_Inr:
  assumes "unpack lib text = Inr m"
  shows "\<exists>x args. json_loads lib text = Inr (PList (x # args)) \<and>
           ((eq_int x 2 \<and> construct Call args = Inr m)
            \<or> (eq_int x 3 \<and> construct CallResult args = Inr m)
            \<or> (eq_int x 4 \<and> construct CallError args = Inr m))"
proof (cases "json_loads lib text")
  case (Inl e)
  with assms show ?thesis by (simp add: unpack_def split: exn.splits)
next
  case (Inr v)
  show ?thesis
  proof (cases v)
    case (PList msg)
    show ?thesis
    proof (cases msg)
      case Nil
      with assms Inr PList show ?thesis by (simp add: unpack_def)
    next
      case (Cons x args)
      with assms Inr PList show ?thesis
        by (auto simp add: unpack_def split: if_splits)
    qed
  qed (use assms Inr in \<open>simp_all add: unpack_def\<close>)
qed


section \<open>Claims about unpack\<close>

text \<open>
  Claim C1 says that \<^verbatim>\<open>unpack\<close> either returns a message or fails with one of
  \<^verbatim>\<open>FormatViolationError\<close>, \<^verbatim>\<open>ProtocolError\<close> and \<^verbatim>\<open>PropertyConstraintViolationError\<close>, also
  when the type id is a known one and the number of fields is wrong. On the frame
  \<^verbatim>\<open>[2]\<close>, a \<^verbatim>\<open>Call\<close> with none of its three fields, the constructor call of line 35 raises
  \<^verbatim>\<open>TypeError\<close>; only \<^verbatim>\<open>IndexError\<close> is caught there, so the \<^verbatim>\<open>TypeError\<close> leaves \<^verbatim>\<open>unpack\<close>.
\<close>

theorem unpack_short_call_raises_TypeError:
  "unpack example_lib ''[2]'' = Inl TypeError"
  by (simp add: unpack_def example_lib_def example_loads_known known_texts_def)

text \<open>
  Claim C2 says that \<^verbatim>\<open>unpack\<close> fails with \<^verbatim>\<open>FormatViolationError\<close> on every text that is
  not parseable as JSON. The text of 100000 opening brackets is not JSON; \<^verbatim>\<open>json.loads\<close>
  gives up on it with \<^verbatim>\<open>RecursionError\<close>, line 25 catches \<^verbatim>\<open>json.JSONDecodeError\<close> only, and
  the \<^verbatim>\<open>RecursionError\<close> leaves \<^verbatim>\<open>unpack\<close>.
\<close>

theorem unpack_deep_nesting_raises_RecursionError:
  "unpack example_lib (replicate 100000 (CHR ''['')) = Inl RecursionError"
  by (simp add: unpack_def example_lib_def example_loads_def)

text \<open>
  The rest of that classification holds for every library and text: \<^verbatim>\<open>unpack\<close> fails with
  \<^verbatim>\<open>FormatViolationError\<close> when \<^verbatim>\<open>json.loads\<close> raises \<^verbatim>\<open>JSONDecodeError\<close> and passes every other
  exception of \<^verbatim>\<open>json.loads\<close> on; it fails with \<^verbatim>\<open>ProtocolError\<close> when the parsed value is not
  a list, with \<^verbatim>\<open>ProtocolError\<close> when it is the empty list, and, when the first element
  equals none of the type ids of \<^verbatim>\<open>Call\<close>, \<^verbatim>\<open>CallResult\<close> and \<^verbatim>\<open>CallError\<close>, with
  \<^verbatim>\<open>PropertyConstraintViolationError\<close> and a message that prints that element.
\<close>

lemma unpack_framing_failures:
  "(\<forall>e. json_loads lib text = Inl (JSONDecodeError e) \<longrightarrow>
        unpack lib text = Inl (FormatViolationError (''Message is not valid JSON: '' @ e)))
   \<and> (\<forall>e. json_loads lib text = Inl e \<longrightarrow> (\<forall>s. e \<noteq> JSONDecodeError s) \<longrightarrow>
        unpack lib text = Inl e)
   \<and> (\<forall>v. json_loads lib text = Inr v \<longrightarrow> \<not> is_list v \<longrightarrow>
        unpack lib text = Inl (ProtocolError
          (''OCPP message hasn't the correct format. It should be a list, but got ''
            @ type_repr v @ '' instead'')))
   \<and> (json_loads lib text = Inr (PList []) \<longrightarrow>
        unpack lib text = Inl (ProtocolError ''Message doesn't contain MessageTypeID''))
   \<and> (\<forall>x args. json_loads lib text = Inr (PList (x # args)) \<longrightarrow>
        \<not> eq_int x (message_type_id Call) \<longrightarrow> \<not> eq_int x (message_type_id CallResult) \<longrightarrow>
        \<not> eq_int x (message_type_id CallError) \<longrightarrow>
        unpack lib text = Inl (PropertyConstraintViolationError
          (''MessageTypeId '' @ [CHR 0x27] @ format_value lib x @ [CHR 0x27] @ '' isn't valid'')))"
proof (intro conjI allI impI)
  fix e assume "json_loads lib text = Inl (JSONDecodeError e)"
  then show "unpack lib text = Inl (FormatViolationError (''Message is not valid JSON: '' @ e))"
    by (simp add: unpack_def)
next
  fix e assume "json_loads lib text = Inl e" and "\<forall>s. e \<noteq> JSONDecodeError s"
  then show "unpack lib text = Inl e"
    by (cases e) (simp_all add: unpack_def)
next
  fix v assume "json_loads lib text = Inr v" and "\<not> is_list v"
  then show "unpack lib text = Inl (ProtocolError
          (''OCPP message hasn't the correct format. It should be a list, but got ''
            @ type_repr v @ '' instead''))"
    by (cases v) (simp_all add: unpack_def)
next
  assume "json_loads lib text = Inr (PList [])"
  then show "unpack lib text = Inl (ProtocolError ''Message doesn't contain MessageTypeID'')"
    by (simp add: unpack_def)
next
  fix x args
  assume "json_loads lib text = Inr (PList (x # args))"
    and "\<not> eq_int x (message_type_id Call)" and "\<not> eq_int x (message_type_id CallResult)"
    and "\<not> eq_int x (message_type_id CallError)"
  then show "unpack lib text = Inl (PropertyConstraintViolationError
          (''MessageTypeId '' @ [CHR 0x27] @ format_value lib x @ [CHR 0x27] @ '' isn't valid''))"
    by (simp add: unpack_def)
qed

lemma unpack_framing_failures_examples:
  \<open>unpack example_lib ''not json'' =
     Inl (FormatViolationError ''Message is not valid JSON: Expecting value: line 1 column 1 (char 0)'')
   \<and> unpack example_lib ''{}'' =
     Inl (ProtocolError ''OCPP message hasn't the correct format. It should be a list, but got <class 'dict'> instead'')
   \<and> unpack example_lib ''[]'' = Inl (ProtocolError ''Message doesn't contain MessageTypeID'')
   \<and> unpack example_lib ''[9, "1"]'' =
     Inl (PropertyConstraintViolationError ''MessageTypeId '9' isn't valid'')\<close>
  using unpack_framing_failures [of example_lib "''not json''"]
    unpack_framing_failures [of example_lib "''{}''"]
    unpack_framing_failures [of example_lib "''[]''"]
    unpack_framing_failures [of example_lib \<open>''[9, "1"]''\<close>]
  by (simp add: example_lib_def example_loads_simps digits.simps)



text \<open>
  Claim C9 says that a \<^verbatim>\<open>Call\<close> returned by \<^verbatim>\<open>unpack\<close> has a non-empty \<^verbatim>\<open>action\<close> and a
  non-empty \<^verbatim>\<open>unique_id\<close>. The frame \<^verbatim>\<open>[2, "", "", {}]\<close> is unpacked into a \<^verbatim>\<open>Call\<close> whose
  two fields are the empty string: nothing in \<^verbatim>\<open>unpack\<close> or \<^verbatim>\<open>Call.__init__\<close> looks at them.
\<close>

theorem unpack_call_empty_fields:
  \<open>unpack example_lib ''[2, "", "", {}]''
     = Inr (MCall \<lparr>unique_id = PStr '''', action = PStr '''', payload = PDict []\<rparr>)\<close>
  by (simp add: unpack_def example_lib_def example_loads_frames Call_init_def)

text \<open>
  Claim C9 as amended: when \<^verbatim>\<open>unpack\<close> returns a \<^verbatim>\<open>Call\<close>, the parsed text is a list of
  exactly four elements whose first equals the type id 2, and the \<^verbatim>\<open>Call\<close> is the one
  \<^verbatim>\<open>Call.__init__\<close> builds from the other three: its \<^verbatim>\<open>unique_id\<close> and \<^verbatim>\<open>action\<close> are the
  second and third elements as they are, whatever values they are.
\<close>

theorem unpack_call_fields:
  assumes "unpack lib text = Inr (MCall c)"
  shows "\<exists>x u a p. json_loads lib text = Inr (PList [x, u, a, p]) \<and> eq_int x (message_type_id Call)
           \<and> c = Call_init u a p \<and> unique_id c = u \<and> action c = a"
proof -
  from unpack_Inr [OF assms] obtain x args where
    l: "json_loads lib text = Inr (PList (x # args))" and
    d: "(eq_int x 2 \<and> construct Call args = Inr (MCall c))
        \<or> (eq_int x 3 \<and> construct CallResult args = Inr (MCall c))
        \<or> (eq_int x 4 \<and> construct CallError args = Inr (MCall c))"
    by blast
  from d have "eq_int x 2 \<and> construct Call args = Inr (MCall c)"
    by (auto dest: construct_CallResult_Inr construct_CallError_Inr)
  then obtain u a p where "eq_int x 2" "args = [u, a, p]" "c = Call_init u a p"
    by (auto dest: construct_Call_Inr)
  with l show ?thesis by (auto simp add: Call_init_def)
qed

theorem unpack_call_fields_witness:
  \<open>unpack example_lib ''[2, "19223201", "BootNotification", {"chargePointVendor": "VendorX", "chargePointModel": "SingleSocketCharger"}]''
     = Inr (MCall \<lparr>unique_id = PStr ''19223201'', action = PStr ''BootNotification'',
              payload = PDict [(''chargePointVendor'', PStr ''VendorX''),
                               (''chargePointModel'', PStr ''SingleSocketCharger'')]\<rparr>)
   \<and> (\<exists>x u a p. json_loads example_lib ''[2, "19223201", "BootNotification", {"chargePointVendor": "VendorX", "chargePointModel": "SingleSocketCharger"}]''
           = Inr (PList [x, u, a, p]) \<and> eq_int x (message_type_id Call)
         \<and> u = PStr ''19223201'' \<and> a = PStr ''BootNotification'')\<close>
proof -
  have u: \<open>unpack example_lib ''[2, "19223201", "BootNotification", {"chargePointVendor": "VendorX", "chargePointModel": "SingleSocketCharger"}]''
     = Inr (MCall \<lparr>unique_id = PStr ''19223201'', action = PStr ''BootNotification'',
              payload = PDict [(''chargePointVendor'', PStr ''VendorX''),
                               (''chargePointModel'', PStr ''SingleSocketCharger'')]\<rparr>)\<close>
    by (simp add: unpack_def example_lib_def example_loads_frames Call_init_def)
  from unpack_call_fields [OF u] u show ?thesis by auto
qed

section \<open>Claims about the factories of Call\<close>

text \<open>
  Claim C4 says that \<^verbatim>\<open>create_call_error\<close>, given a failure that is not an \<^verbatim>\<open>OCPPError\<close>,
  returns a \<^verbatim>\<open>CallError\<close> with the code \<^verbatim>\<open>InternalError\<close>, the description
  \<^verbatim>\<open>An unexpected error occurred.\<close> and empty details. The code and the details are those;
  the description the function writes is spelt \<^verbatim>\<open>An unexpected error occured.\<close>, with one r.
\<close>

theorem create_call_error_generic:
  "create_call_error self OtherException =
     \<lparr>error_unique_id = unique_id self, error_code = PStr ''InternalError'',
      error_description = PStr ''An unexpected error occured.'', error_details = PDict []\<rparr>
   \<and> error_description (create_call_error self OtherException)
       \<noteq> PStr ''An unexpected error occurred.''"
  by (simp add: create_call_error_def CallError_init_def)

text \<open>The other half of that claim holds: the code, description and details of an
  \<^verbatim>\<open>OCPPError\<close> are carried over as they are, with the \<^verbatim>\<open>unique_id\<close> of the \<^verbatim>\<open>Call\<close>.\<close>

lemma create_call_error_ocpp:
  "create_call_error self (OCPPErrorInstance e) =
     \<lparr>error_unique_id = unique_id self, error_code = PStr (code (kind e)),
      error_description = description e, error_details = details e\<rparr>"
  by (simp add: create_call_error_def CallError_init_def)

text \<open>
  Claim C8: for every \<^verbatim>\<open>Call\<close> and every payload, \<^verbatim>\<open>create_call_result\<close> returns a
  \<^verbatim>\<open>CallResult\<close> with the \<^verbatim>\<open>unique_id\<close> and the \<^verbatim>\<open>action\<close> of the \<^verbatim>\<open>Call\<close> and with that
  payload; a \<^verbatim>\<open>Call\<close> with \<^verbatim>\<open>unique_id\<close> 19223201 and action BootNotification gives a
  \<^verbatim>\<open>CallResult\<close> with the same two.
\<close>

theorem create_call_result_copies:
  "result_unique_id (create_call_result self p) = unique_id self
   \<and> result_action (create_call_result self p) = action self
   \<and> result_payload (create_call_result self p) = p
   \<and> create_call_result (Call_init (PStr ''19223201'') (PStr ''BootNotification'') pl)
         (PDict [(''status'', PStr ''Accepted'')])
       = \<lparr>result_unique_id = PStr ''19223201'',
          result_payload = PDict [(''status'', PStr ''Accepted'')],
          result_action = PStr ''BootNotification''\<rparr>"
  by (simp add: create_call_result_def CallResult_init_def Call_init_def)

section \<open>Claims about to_exception\<close>

lemma to_exception_found:
  "ErrorClass c \<in> set subclasses \<Longrightarrow> error_code self = PStr c \<Longrightarrow>
   to_exception subclasses self =
     Inr \<lparr>kind = ErrorClass c, description = error_description self,
          details = error_details self\<rparr>"
proof (induction subclasses)
  case Nil
  then show ?case by simp
next
  case (Cons error rest)
  show ?case
  proof (cases "code error = c")
    case True
    then have "error = ErrorClass c" by (cases error) simp
    with Cons.prems show ?thesis by simp
  next
    case False
    with Cons show ?thesis by auto
  qed
qed

lemma to_exception_not_found:
  "\<forall>c. error_code self = PStr c \<longrightarrow> ErrorClass c \<notin> set subclasses \<Longrightarrow>
   to_exception subclasses self = Inl (unknown_code self)"
proof (induction subclasses)
  case Nil
  then show ?case by (simp add: unknown_code_def)
next
  case (Cons error rest)
  have "PStr (code error) \<noteq> error_code self"
  proof
    assume eq: "PStr (code error) = error_code self"
    with Cons.prems have "ErrorClass (code error) \<notin> set (error # rest)" by metis
    then show False by simp
  qed
  with Cons show ?case by simp
qed

text \<open>
  Claim C5: for every \<^verbatim>\<open>CallError\<close> and every list of registered failure kinds,
  \<^verbatim>\<open>to_exception\<close> returns the kind registered for the error code, built from the
  description and the details of the \<^verbatim>\<open>CallError\<close>, whenever the code is registered; it
  raises \<^verbatim>\<open>UnknownCallErrorCodeError\<close> exactly when the code is not registered, and it
  raises nothing else. With the vocabulary of the specification, \<^verbatim>\<open>NotImplemented\<close> gives
  its kind and \<^verbatim>\<open>TotallyMadeUp\<close> raises.
\<close>

theorem to_exception_by_registry:
  "(\<forall>c. error_code self = PStr c \<longrightarrow> ErrorClass c \<in> set subclasses \<longrightarrow>
       to_exception subclasses self =
         Inr \<lparr>kind = ErrorClass c, description = error_description self,
              details = error_details self\<rparr>)
   \<and> ((to_exception subclasses self = Inl (unknown_code self))
        = (\<forall>c. error_code self = PStr c \<longrightarrow> ErrorClass c \<notin> set subclasses))
   \<and> (\<forall>e. to_exception subclasses self = Inl e \<longrightarrow> e = unknown_code self)"
proof (intro conjI allI impI)
  fix c assume "error_code self = PStr c" "ErrorClass c \<in> set subclasses"
  then show "to_exception subclasses self =
         Inr \<lparr>kind = ErrorClass c, description = error_description self,
              details = error_details self\<rparr>"
    by (simp add: to_exception_found)
next
  show "(to_exception subclasses self = Inl (unknown_code self))
        = (\<forall>c. error_code self = PStr c \<longrightarrow> ErrorClass c \<notin> set subclasses)"
  proof
    assume l: "to_exception subclasses self = Inl (unknown_code self)"
    show "\<forall>c. error_code self = PStr c \<longrightarrow> ErrorClass c \<notin> set subclasses"
    proof (intro allI impI notI)
      fix c assume "error_code self = PStr c" "ErrorClass c \<in> set subclasses"
      then have "to_exception subclasses self =
         Inr \<lparr>kind = ErrorClass c, description = error_description self,
              details = error_details self\<rparr>"
        by (simp add: to_exception_found)
      with l show False by simp
    qed
  next
    assume "\<forall>c. error_code self = PStr c \<longrightarrow> ErrorClass c \<notin> set subclasses"
    then show "to_exception subclasses self = Inl (unknown_code self)"
      by (rule to_exception_not_found)
  qed
next
  fix e assume l: "to_exception subclasses self = Inl e"
  have "\<forall>c. error_code self = PStr c \<longrightarrow> ErrorClass c \<notin> set subclasses"
  proof (intro allI impI notI)
    fix c assume "error_code self = PStr c" "ErrorClass c \<in> set subclasses"
    then have "to_exception subclasses self =
         Inr \<lparr>kind = ErrorClass c, description = error_description self,
              details = error_details self\<rparr>"
      by (simp add: to_exception_found)
    with l show False by simp
  qed
  then have "to_exception subclasses self = Inl (unknown_code self)"
    by (rule to_exception_not_found)
  with l show "e = unknown_code self" by simp
qed

theorem to_exception_by_registry_witness:
  "to_exception OCPPError_subclasses
     (CallError_init (PStr ''1'') (PStr ''NotImplemented'') (PStr ''not here'') (PDict []))
     = Inr \<lparr>kind = ErrorClass ''NotImplemented'', description = PStr ''not here'',
            details = PDict []\<rparr>
   \<and> to_exception OCPPError_subclasses
     (CallError_init (PStr ''1'') (PStr ''TotallyMadeUp'') (PStr ''what'') (PDict []))
     = Inl (UnknownCallErrorCodeError
             ''Error code '%s' is not defined by the OCPP specification'' (PStr ''TotallyMadeUp''))
   \<and> ErrorClass ''NotImplemented'' \<in> set OCPPError_subclasses
   \<and> ErrorClass ''TotallyMadeUp'' \<notin> set OCPPError_subclasses"
  using to_exception_by_registry [of
      "CallError_init (PStr ''1'') (PStr ''NotImplemented'') (PStr ''not here'') (PDict [])"
      OCPPError_subclasses]
    to_exception_by_registry [of
      "CallError_init (PStr ''1'') (PStr ''TotallyMadeUp'') (PStr ''what'') (PDict [])"
      OCPPError_subclasses]
  by (simp add: CallError_init_def OCPPError_subclasses_def unknown_code_def)

section \<open>Claims about the schema store\<close>

text \<open>
  Claim C7: for every action string, under version 1.6 a \<^verbatim>\<open>Call\<close> looks its schema up
  under the action name alone and a \<^verbatim>\<open>CallResult\<close> under the name followed by
  \<^verbatim>\<open>Response\<close>; under version 2.0 a \<^verbatim>\<open>Call\<close> appends \<^verbatim>\<open>Request\<close>, a \<^verbatim>\<open>CallResult\<close> appends
  \<^verbatim>\<open>Response\<close>, and both then append \<^verbatim>\<open>_v1p0\<close>. The file \<^verbatim>\<open>get_schema\<close> opens on an empty
  cache is the one of that name in the directory of the version.
\<close>

theorem schema_lookup_names:
  "schema_name (message_type_id Call) (PStr a) ''1.6'' = Inr (PStr a)
   \<and> schema_name (message_type_id CallResult) (PStr a) ''1.6'' = Inr (PStr (a @ ''Response''))
   \<and> schema_name (message_type_id Call) (PStr a) ''2.0'' = Inr (PStr (a @ ''Request'' @ ''_v1p0''))
   \<and> schema_name (message_type_id CallResult) (PStr a) ''2.0''
         = Inr (PStr (a @ ''Response'' @ ''_v1p0''))
   \<and> opened (snd (get_schema lib fs initial_world (message_type_id Call) (PStr a) ''1.6''))
         = [path_join (module_dir lib) (''v16/schemas/'' @ a @ ''.json'')]
   \<and> opened (snd (get_schema lib fs initial_world (message_type_id CallResult) (PStr a) ''1.6''))
         = [path_join (module_dir lib) (''v16/schemas/'' @ a @ ''Response'' @ ''.json'')]
   \<and> opened (snd (get_schema lib fs initial_world (message_type_id Call) (PStr a) ''2.0''))
         = [path_join (module_dir lib) (''v20/schemas/'' @ a @ ''Request'' @ ''_v1p0'' @ ''.json'')]
   \<and> opened (snd (get_schema lib fs initial_world (message_type_id CallResult) (PStr a) ''2.0''))
         = [path_join (module_dir lib) (''v20/schemas/'' @ a @ ''Response'' @ ''_v1p0'' @ ''.json'')]"
  by (simp add: schema_name_def MessageType_Call_def MessageType_CallResult_def get_schema_def
      schemas_dir_def relative_path_def initial_world_def Let_def split: sum.split)
















section \<open>Claims about validate_payload\<close>

lemma get_schema_no_action:
  "get_schema lib fs w 3 PNone v =
     (Inl (if v = ''1.6'' \<or> v = ''2.0'' then TypeError else ValueError), w)"
  by (simp add: get_schema_def schemas_dir_def schema_name_def MessageType_CallResult_def)

text \<open>
  Claim C10: a \<^verbatim>\<open>CallResult\<close> unpacked from its wire form, a frame of exactly three
  elements, has the action \<^verbatim>\<open>None\<close>; and on every \<^verbatim>\<open>CallResult\<close> whose action is \<^verbatim>\<open>None\<close>,
  \<^verbatim>\<open>validate_payload\<close> fails for every version string, leaves the cache as it is, and the
  failure is never a \<^verbatim>\<open>ValidationError\<close>: under the protocol versions 1.6 and 2.0 it is the
  \<^verbatim>\<open>TypeError\<close> of \<^verbatim>\<open>None + 'Response'\<close> in \<^verbatim>\<open>get_schema\<close>, which the \<^verbatim>\<open>except\<close> clause of
  line 105 does not catch; a version string that is neither is refused before that by the
  \<^verbatim>\<open>ValueError\<close> of line 64.
\<close>

theorem validate_result_without_action:
  "(\<forall>x u p. json_loads lib text = Inr (PList [x, u, p]) \<longrightarrow>
       unpack lib text = Inr (MCallResult m) \<longrightarrow> result_action m = PNone)
   \<and> (result_action m = PNone \<longrightarrow>
       validate_payload lib fs w (MCallResult m) v =
         (Inl (if v = ''1.6'' \<or> v = ''2.0'' then TypeError else ValueError), w)
       \<and> (\<forall>s. fst (validate_payload lib fs w (MCallResult m) v) \<noteq> Inl (ValidationError s)))"
proof (intro conjI allI impI)
  fix x u p
  assume "json_loads lib text = Inr (PList [x, u, p])" "unpack lib text = Inr (MCallResult m)"
  then show "result_action m = PNone"
    by (auto simp add: unpack_def Call_init_def CallResult_init_def split: if_splits)
next
  assume "result_action m = PNone"
  then show r: "validate_payload lib fs w (MCallResult m) v =
         (Inl (if v = ''1.6'' \<or> v = ''2.0'' then TypeError else ValueError), w)"
    by (simp add: validate_against_schema_def get_schema_no_action Let_def)
  fix s
  show "fst (validate_payload lib fs w (MCallResult m) v) \<noteq> Inl (ValidationError s)"
    unfolding r by simp
qed

theorem validate_result_without_action_witness:
  \<open>json_loads example_lib ''[3, "19223201", {"status": "Accepted"}]''
     = Inr (PList [PInt 3, PStr ''19223201'', PDict [(''status'', PStr ''Accepted'')]])
   \<and> unpack example_lib ''[3, "19223201", {"status": "Accepted"}]''
     = Inr (MCallResult \<lparr>result_unique_id = PStr ''19223201'',
              result_payload = PDict [(''status'', PStr ''Accepted'')], result_action = PNone\<rparr>)
   \<and> validate_payload example_lib example_files initial_world
       (MCallResult \<lparr>result_unique_id = PStr ''19223201'',
              result_payload = PDict [(''status'', PStr ''Accepted'')], result_action = PNone\<rparr>)
       ''1.6'' = (Inl TypeError, initial_world)
   \<and> validate_payload example_lib example_files initial_world
       (MCallResult \<lparr>result_unique_id = PStr ''19223201'',
              result_payload = PDict [(''status'', PStr ''Accepted'')], result_action = PNone\<rparr>)
       ''2.0'' = (Inl TypeError, initial_world)
   \<and> validate_payload example_lib example_files initial_world
       (MCallResult \<lparr>result_unique_id = PStr ''19223201'',
              result_payload = PDict [(''status'', PStr ''Accepted'')], result_action = PNone\<rparr>)
       ''1.5'' = (Inl ValueError, initial_world)\<close>
proof -
  let ?m = "\<lparr>result_unique_id = PStr ''19223201'',
              result_payload = PDict [(''status'', PStr ''Accepted'')], result_action = PNone\<rparr>"
  have u: \<open>unpack example_lib ''[3, "19223201", {"status": "Accepted"}]'' = Inr (MCallResult ?m)\<close>
    by (simp add: unpack_def example_lib_def example_loads_results CallResult_init_def)
  have n: "result_action ?m = PNone" by simp
  from validate_result_without_action [of example_lib _ ?m example_files initial_world "''1.6''"]
    validate_result_without_action [of example_lib _ ?m example_files initial_world "''2.0''"]
    validate_result_without_action [of example_lib _ ?m example_files initial_world "''1.5''"]
    u n
  show ?thesis by (simp add: example_lib_def example_loads_results)
qed

text \<open>
  A frame of four elements is not the wire form of a \<^verbatim>\<open>CallResult\<close>, yet line 35 passes
  every element after the type id to \<^verbatim>\<open>CallResult.__init__\<close>, whose third parameter is the
  action: such a frame is unpacked into a \<^verbatim>\<open>CallResult\<close> that has an action, and with the
  schema of that action on disk and a payload that fits it \<^verbatim>\<open>validate_payload\<close> returns
  normally.
\<close>

lemma unpack_result_with_fourth_element:
  \<open>unpack example_lib ''[3, "1", {"currentTime": "2013-02-01T20:53:32.486Z"}, "Heartbeat"]''
     = Inr (MCallResult \<lparr>result_unique_id = PStr ''1'',
              result_payload = PDict [(''currentTime'', PStr ''2013-02-01T20:53:32.486Z'')],
              result_action = PStr ''Heartbeat''\<rparr>)
   \<and> fst (validate_payload example_lib example_files initial_world
       (MCallResult \<lparr>result_unique_id = PStr ''1'',
              result_payload = PDict [(''currentTime'', PStr ''2013-02-01T20:53:32.486Z'')],
              result_action = PStr ''Heartbeat''\<rparr>) ''1.6'') = Inr ()\<close>
proof -
  have s: "get_schema example_lib example_files initial_world 3 (PStr ''Heartbeat'') ''1.6''
     = (Inr \<lparr>oid = 0, val = PDict [(''type'', PStr ''object''),
                (''required'', PList [PStr ''currentTime''])]\<rparr>,
        \<lparr>schemas = [''v16/schemas/HeartbeatResponse.json'' \<mapsto>
            \<lparr>oid = 0, val = PDict [(''type'', PStr ''object''),
                (''required'', PList [PStr ''currentTime''])]\<rparr>],
         next_id = 1, opened = [''/opt/ocpp/v16/schemas/HeartbeatResponse.json'']\<rparr>)"
    by (simp add: get_schema_def schemas_dir_def schema_name_def MessageType_Call_def
      MessageType_CallResult_def relative_path_def path_join_def example_lib_def Let_def
      example_files_def example_loads_results initial_world_def)
  have v: "jsonschema_validate example_lib
      (PDict [(''currentTime'', PStr ''2013-02-01T20:53:32.486Z'')])
      (PDict [(''type'', PStr ''object''), (''required'', PList [PStr ''currentTime''])]) = Valid"
    by (simp add: example_lib_def)
  show ?thesis
    by (simp add: unpack_def validate_against_schema_def s v Let_def)
       (simp add: example_lib_def example_loads_results CallResult_init_def)
qed

end
